theory Spec2Isabelle
  imports Main
begin

section \<open>Go error values\<close>

text \<open>
  Go errors are values. The two sentinels of the repository and \<^verbatim>\<open>os.ErrClosed\<close>
  are constructors of their own;
  \<open>Errorf_w msg inner\<close> is an error made by \<^verbatim>\<open>fmt.Errorf\<close> with the verb
  \<^verbatim>\<open>%w\<close> (it wraps \<open>inner\<close>), and \<open>Plain msg\<close> is any error that wraps
  nothing: \<^verbatim>\<open>errors.New\<close>, \<^verbatim>\<open>fmt.Errorf\<close> with \<^verbatim>\<open>%v\<close> or
  \<^verbatim>\<open>%s\<close> only, and the errors of libraries. \<open>None\<close> of type
  \<open>error option\<close> is Go's \<^verbatim>\<open>nil\<close> error.
\<close>

datatype error =
    ErrConditionNotMet
  | ErrServerRequestedShutdown
  | os_ErrClosed
  | Errorf_w string error
  | Plain string

text \<open>\<^verbatim>\<open>err.Error()\<close>: the message of an error.\<close>

fun Error :: "error \<Rightarrow> string" where
  "Error ErrConditionNotMet = ''condition was not met''"
| "Error ErrServerRequestedShutdown = ''socket frontend is requested to shutdown''"
| "Error os_ErrClosed = ''file already closed''"
| "Error (Errorf_w msg inner) = msg"
| "Error (Plain msg) = msg"

text \<open>\<^verbatim>\<open>errors.Is(err, target)\<close>: \<open>err\<close> or an error it wraps is \<open>target\<close>.\<close>

fun errors_Is :: "error \<Rightarrow> error \<Rightarrow> bool" where
  "errors_Is (Errorf_w msg inner) target =
     (Errorf_w msg inner = target \<or> errors_Is inner target)"
| "errors_Is e target = (e = target)"

section \<open>Preconditions (package digraph, condition.go)\<close>

record Condition =
  Command :: string
  Condition :: string
  Expected :: string

text \<open>
  What \<^verbatim>\<open>ctx\<close> and the process environment give to the evaluation of a condition.
  These helpers belong to other files of the program, so each is a field:
  \<^item> \<open>IsStepContext\<close>, \<open>IsContext\<close>: the two tests on the context;
  \<^item> \<open>StepEvalString\<close>: \<^verbatim>\<open>GetStepContext(ctx).EvalString\<close>;
  \<^item> \<open>CtxEvalString\<close>: \<^verbatim>\<open>GetContext(ctx).EvalString\<close>;
  \<^item> \<open>cmdutilEvalString\<close>: \<^verbatim>\<open>cmdutil.EvalString\<close>;
  \<^item> \<open>GetShellCommand\<close>: the result of \<^verbatim>\<open>cmdutil.GetShellCommand("")\<close>;
  \<^item> \<open>Output\<close>: the error of \<^verbatim>\<open>exec.CommandContext(ctx, argv...).Output()\<close>.
\<close>

record Context =
  IsStepContext :: bool
  IsContext :: bool
  StepEvalString :: "string \<Rightarrow> error + string"
  CtxEvalString :: "string \<Rightarrow> error + string"
  cmdutilEvalString :: "string \<Rightarrow> error + string"
  GetShellCommand :: string
  Output :: "string list \<Rightarrow> error option"

text \<open>The method \<^verbatim>\<open>(c Condition) evalCommand\<close>.\<close>

definition Condition_evalCommand :: "Context \<Rightarrow> Condition \<Rightarrow> bool \<times> error option" where
  "Condition_evalCommand ctx c =
     (case (if IsStepContext ctx then StepEvalString ctx (Command c)
            else if IsContext ctx then CtxEvalString ctx (Command c)
            else cmdutilEvalString ctx (Command c)) of
        Inl err \<Rightarrow> (False, Some err)
      | Inr commandToRun \<Rightarrow>
          (if GetShellCommand ctx = []
           then (case Output ctx [commandToRun] of
                   Some err \<Rightarrow>
                     (False, Some (Errorf_w (Error ErrConditionNotMet @ '': '' @ Error err)
                                            ErrConditionNotMet))
                 | None \<Rightarrow> (True, None))
           else (case Output ctx [GetShellCommand ctx, ''-c'', commandToRun] of
                   Some err \<Rightarrow>
                     (False, Some (Errorf_w (Error ErrConditionNotMet @ '': '' @ Error err)
                                            ErrConditionNotMet))
                 | None \<Rightarrow> (True, None))))"

text \<open>The method \<^verbatim>\<open>(c Condition) evalCondition\<close>.\<close>

definition Condition_evalCondition :: "Context \<Rightarrow> Condition \<Rightarrow> bool \<times> error option" where
  "Condition_evalCondition ctx c =
     (if IsStepContext ctx
      then (case StepEvalString ctx (Condition c) of
              Inl err \<Rightarrow> (False, Some err)
            | Inr evaluatedVal \<Rightarrow> (Expected c = evaluatedVal, None))
      else (case CtxEvalString ctx (Condition c) of
              Inl err \<Rightarrow> (False, Some err)
            | Inr evaluatedVal \<Rightarrow> (Expected c = evaluatedVal, None)))"

text \<open>The method \<^verbatim>\<open>(c Condition) eval\<close>: the switch on the two fields.\<close>

definition Condition_eval :: "Context \<Rightarrow> Condition \<Rightarrow> bool \<times> error option" where
  "Condition_eval ctx c =
     (if Condition c \<noteq> [] then Condition_evalCondition ctx c
      else if Command c \<noteq> [] then Condition_evalCommand ctx c
      else (False, Some (Plain (''invalid condition: Condition='' @ Condition c))))"

text \<open>
  The function \<^verbatim>\<open>evalCondition(ctx, c)\<close>. An error of the evaluation that is not
  already the sentinel is reported with \<^verbatim>\<open>%v\<close>, so the error returned wraps nothing.
\<close>

definition evalCondition :: "Context \<Rightarrow> Condition \<Rightarrow> error option" where
  "evalCondition ctx c =
     (case Condition_eval ctx c of
        (matched, Some err) \<Rightarrow>
          (if errors_Is err ErrConditionNotMet then Some err
           else Some (Plain (''failed to evaluate condition: Condition='' @ Condition c
                             @ '' Error='' @ Error err)))
      | (matched, None) \<Rightarrow>
          (if \<not> matched
           then Some (Errorf_w (Error ErrConditionNotMet @ '': Condition='' @ Condition c
                                @ '' Expected='' @ Expected c) ErrConditionNotMet)
           else None))"

text \<open>
  \<^verbatim>\<open>EvalConditions(ctx, cond)\<close>: the loop over the slice, returning at the first
  error. The second component is the trace of the loop: the conditions that
  \<^verbatim>\<open>evalCondition\<close> was called on, in the order of the calls.
\<close>

fun EvalConditions :: "Context \<Rightarrow> Condition list \<Rightarrow> error option \<times> Condition list" where
  "EvalConditions ctx [] = (None, [])"
| "EvalConditions ctx (c # cond) =
     (case evalCondition ctx c of
        Some err \<Rightarrow> (Some err, [c])
      | None \<Rightarrow> (case EvalConditions ctx cond of (r, evaluated) \<Rightarrow> (r, c # evaluated)))"

text \<open>A condition is met when its evaluation succeeds and reports a match.\<close>

definition condition_met :: "Context \<Rightarrow> Condition \<Rightarrow> bool" where
  "condition_met ctx c = (Condition_eval ctx c = (True, None))"

text \<open>
  A context for examples: a plain (non-step) context whose \<^verbatim>\<open>EvalString\<close> returns
  its argument unchanged, with \<^verbatim>\<open>sh\<close> as the shell and every command succeeding.
\<close>

definition echoContext :: Context where
  "echoContext =
     \<lparr>IsStepContext = False, IsContext = True,
      StepEvalString = Inr, CtxEvalString = Inr, cmdutilEvalString = Inr,
      GetShellCommand = ''sh'', Output = (\<lambda>argv. None)\<rparr>"


definition matchingCondition :: Condition where
  "matchingCondition = \<lparr>Command = [], Condition = ''1'', Expected = ''1''\<rparr>"

definition mismatchingCondition :: Condition where
  "mismatchingCondition = \<lparr>Command = [], Condition = ''1'', Expected = ''0''\<rparr>"

definition invalidCondition :: Condition where
  "invalidCondition = \<lparr>Command = [], Condition = [], Expected = []\<rparr>"

section \<open>The unix socket frontend (package sock, server.go)\<close>

subsection \<open>The operating system as the server sees it\<close>

text \<open>
  Entries of \<^verbatim>\<open>srv.logger\<close>: \<open>DebugEntry msg value\<close> for
  \<^verbatim>\<open>logger.Debug(msg, key, value)\<close> and \<open>ErrorEntry msg err\<close> for
  \<^verbatim>\<open>logger.Error(msg, "error", err)\<close>.
\<close>

datatype logEntry = DebugEntry string string | ErrorEntry string error

record Request =
  Method :: string
  Path :: string

record Response =
  StatusCode :: int
  ProtoMajor :: int
  ProtoMinor :: int
  Body :: string
  Header :: "(string \<times> string) list"

text \<open>
  A connection handed out by \<^verbatim>\<open>Accept\<close>: \<open>request\<close> is what
  \<^verbatim>\<open>http.ReadRequest\<close> reads from it, \<open>writeFault\<close> the error that writing to
  it gives (nil when the peer is there), \<open>written\<close> the responses written to it so far.
\<close>

record Conn =
  request :: "error + Request"
  writeFault :: "error option"
  written :: "Response list"
  connClosed :: bool

text \<open>
  The state outside the server: the paths that exist in the file system, the error with
  which \<^verbatim>\<open>os.Remove\<close> fails on a path (a file of another user in a sticky
  directory, a directory that is not empty; \<open>None\<close> where it can remove), the log, what
  was sent on the \<^verbatim>\<open>listen\<close> channel, and the connections the handler goroutines have
  finished with.
\<close>

record OS =
  files :: "string set"
  removeFault :: "string \<Rightarrow> error option"
  logged :: "logEntry list"
  listenSent :: "error option list"
  served :: "Conn list"

text \<open>
  \<^verbatim>\<open>os.Remove(name)\<close>: the error and the system afterwards. It fails, and leaves the
  file where it is, when the system does not let it remove the path, and it fails when there
  is nothing at the path. Both callers in \<^verbatim>\<open>Serve\<close> drop the error.
\<close>

definition os_Remove :: "string \<Rightarrow> OS \<Rightarrow> error option \<times> OS" where
  "os_Remove name w =
     (case removeFault w name of
        Some err \<Rightarrow> (Some err, w)
      | None \<Rightarrow>
          (if name \<in> files w then (None, w\<lparr>files := files w - {name}\<rparr>)
           else (Some (Plain (''remove '' @ name @ '': no such file or directory'')), w)))"

text \<open>
  A listener of package \<^verbatim>\<open>net\<close> on a unix socket. \<^verbatim>\<open>net.Listen("unix", a)\<close>
  fails when a file exists at \<open>a\<close> (the address is in use) or for a reason outside the
  program (\<open>fault\<close>); otherwise it creates the socket file. A listener made by
  \<^verbatim>\<open>Listen\<close> unlinks its socket file on its first \<^verbatim>\<open>Close\<close>; \<open>closeFault\<close> is the
  error of closing the descriptor, and a later \<^verbatim>\<open>Close\<close> reports that the listener
  is closed already. \<open>closeCalls\<close> counts the calls of \<^verbatim>\<open>Close\<close>.
\<close>

record Listener =
  path :: string
  closeFault :: "error option"
  isClosed :: bool
  closeCalls :: nat

definition net_Listen :: "string \<Rightarrow> error option \<Rightarrow> OS \<Rightarrow> (error + Listener) \<times> OS" where
  "net_Listen address fault w =
     (if address \<in> files w then (Inl (Plain ''bind: address already in use''), w)
      else (case fault of
              Some err \<Rightarrow> (Inl err, w)
            | None \<Rightarrow>
                (Inr \<lparr>path = address, closeFault = None, isClosed = False, closeCalls = 0\<rparr>,
                 w\<lparr>files := insert address (files w)\<rparr>)))"

definition Listener_Close :: "Listener \<Rightarrow> OS \<Rightarrow> error option \<times> Listener \<times> OS" where
  "Listener_Close l w =
     (if isClosed l
      then (Some (Plain ''use of closed network connection''),
            l\<lparr>closeCalls := Suc (closeCalls l)\<rparr>, w)
      else (closeFault l, l\<lparr>isClosed := True, closeCalls := Suc (closeCalls l)\<rparr>,
            w\<lparr>files := files w - {path l}\<rparr>))"

subsection \<open>The response writer\<close>

record httpResponseWriter =
  header :: "(string \<times> string) list"
  statusCode :: int

definition newHTTPResponseWriter :: httpResponseWriter where
  "newHTTPResponseWriter = \<lparr>header = [], statusCode = 200\<rparr>"

text \<open>\<^verbatim>\<open>response.Write(conn)\<close> of net/http: the error of writing, or the response sent.\<close>

definition Response_Write :: "Response \<Rightarrow> Conn \<Rightarrow> error option \<times> Conn" where
  "Response_Write response c =
     (case writeFault c of
        Some err \<Rightarrow> (Some err, c)
      | None \<Rightarrow> (None, c\<lparr>written := written c @ [response]\<rparr>))"

text \<open>
  \<^verbatim>\<open>(w *httpResponseWriter) Write(data)\<close>, on the connection \<^verbatim>\<open>*w.conn\<close>: the
  result \<^verbatim>\<open>(int, error)\<close> and the connection afterwards.
\<close>

definition Write :: "httpResponseWriter \<Rightarrow> string \<Rightarrow> Conn \<Rightarrow> (int \<times> error option) \<times> Conn" where
  "Write w data c =
     (let response = \<lparr>StatusCode = statusCode w, ProtoMajor = 1, ProtoMinor = 0,
                      Body = data, Header = header w\<rparr>
      in case Response_Write response c of (_, c') \<Rightarrow> ((0, None), c'))"

definition WriteHeader :: "httpResponseWriter \<Rightarrow> int \<Rightarrow> httpResponseWriter" where
  "WriteHeader w code = w\<lparr>statusCode := code\<rparr>"

text \<open>
  A handler is given by the calls it makes on its response writer, in order;
  \<open>CallHeaderSet k v\<close> stands for \<^verbatim>\<open>w.Header().Set(k, v)\<close>.
\<close>

datatype writerCall = CallWriteHeader int | CallWrite string | CallHeaderSet string string

type_synonym HTTPHandlerFunc = "Request \<Rightarrow> writerCall list"

fun runHandler :: "writerCall list \<Rightarrow> httpResponseWriter \<Rightarrow> Conn \<Rightarrow> httpResponseWriter \<times> Conn" where
  "runHandler [] w c = (w, c)"
| "runHandler (CallWriteHeader code # calls) w c = runHandler calls (WriteHeader w code) c"
| "runHandler (CallWrite data # calls) w c = runHandler calls w (snd (Write w data c))"
| "runHandler (CallHeaderSet k v # calls) w c =
     runHandler calls (w\<lparr>header := header w @ [(k, v)]\<rparr>) c"

subsection \<open>The server\<close>

record Server =
  addr :: string
  handlerFunc :: HTTPHandlerFunc
  listener :: "Listener option"
  quit :: bool

definition NewServer :: "string \<Rightarrow> HTTPHandlerFunc \<Rightarrow> Server" where
  "NewServer a h = \<lparr>addr = a, handlerFunc = h, listener = None, quit = False\<rparr>"

text \<open>
  \<^verbatim>\<open>(srv *Server) Shutdown()\<close>: the error returned, the server and the system
  afterwards. The mutex makes the body atomic.
\<close>

definition Shutdown :: "Server \<Rightarrow> OS \<Rightarrow> error option \<times> Server \<times> OS" where
  "Shutdown srv w =
     (if \<not> quit srv
      then (case listener srv of
              Some l \<Rightarrow>
                (case Listener_Close l w of
                   (err, l', w') \<Rightarrow>
                     (err, srv\<lparr>quit := True, listener := Some l'\<rparr>,
                      (case err of
                         Some e \<Rightarrow>
                           (if \<not> errors_Is e os_ErrClosed
                            then w'\<lparr>logged := logged w' @ [ErrorEntry ''close listener'' e]\<rparr>
                            else w')
                       | None \<Rightarrow> w')))
            | None \<Rightarrow> (None, srv\<lparr>quit := True\<rparr>, w))
      else (None, srv, w))"

text \<open>
  The goroutine started for an accepted connection, run to its end: the request is read,
  the handler is called on a fresh response writer, the connection is closed.
\<close>

definition serveConn :: "Server \<Rightarrow> Conn \<Rightarrow> OS \<Rightarrow> OS" where
  "serveConn srv c w =
     (case request c of
        Inl err \<Rightarrow>
          w\<lparr>logged := logged w @ [ErrorEntry ''read request'' err],
            served := served w @ [c\<lparr>connClosed := True\<rparr>]\<rparr>
      | Inr r \<Rightarrow>
          (case runHandler (handlerFunc srv r) newHTTPResponseWriter c of
             (_, c') \<Rightarrow> w\<lparr>served := served w @ [c'\<lparr>connClosed := True\<rparr>]\<rparr>))"

text \<open>
  What happens while \<^verbatim>\<open>Serve\<close> is in its loop: an \<^verbatim>\<open>Accept\<close> returns a
  connection, an \<^verbatim>\<open>Accept\<close> returns an error, or another goroutine calls
  \<^verbatim>\<open>Shutdown\<close> before the next \<^verbatim>\<open>Accept\<close> has returned and the flag is read.
\<close>

datatype event = Accepted Conn | AcceptFailed error | ShutdownCalled

text \<open>
  The result of a call that may block: \<open>Returned err s\<close> when it has returned
  \<open>err\<close> in state \<open>s\<close>, \<open>Blocked s\<close> when the events given are used up and the
  call still waits in \<^verbatim>\<open>Accept\<close>, the state being \<open>s\<close>.
\<close>

datatype 'a outcome = Returned error 'a | Blocked 'a

text \<open>One pass through the body of the loop, after \<^verbatim>\<open>Accept\<close> has returned.\<close>

datatype acceptResult = AcceptConn Conn | AcceptErr error

definition acceptIteration :: "Server \<Rightarrow> OS \<Rightarrow> acceptResult \<Rightarrow> error option \<times> OS" where
  "acceptIteration srv w r =
     (if quit srv then (Some ErrServerRequestedShutdown, w)
      else (case r of
              AcceptConn c \<Rightarrow> (None, serveConn srv c w)
            | AcceptErr err \<Rightarrow> (None, w)))"

fun acceptLoop :: "Server \<Rightarrow> OS \<Rightarrow> event list \<Rightarrow> (Server \<times> OS) outcome" where
  "acceptLoop srv w [] = Blocked (srv, w)"
| "acceptLoop srv w (ShutdownCalled # evs) =
     (case Shutdown srv w of (_, srv', w') \<Rightarrow> acceptLoop srv' w' evs)"
| "acceptLoop srv w (Accepted c # evs) =
     (case acceptIteration srv w (AcceptConn c) of
        (Some err, w') \<Rightarrow> Returned err (srv, w')
      | (None, w') \<Rightarrow> acceptLoop srv w' evs)"
| "acceptLoop srv w (AcceptFailed e # evs) =
     (case acceptIteration srv w (AcceptErr e) of
        (Some err, w') \<Rightarrow> Returned err (srv, w')
      | (None, w') \<Rightarrow> acceptLoop srv w' evs)"

text \<open>
  \<^verbatim>\<open>(srv *Server) Serve(listen)\<close>. \<open>listen\<close> says whether the channel is non-nil,
  \<open>fault\<close> is the outside failure of \<^verbatim>\<open>net.Listen\<close>, \<open>evs\<close> what happens during
  the loop. The deferred function runs when the loop returns.
\<close>

definition sendListen :: "bool \<Rightarrow> error option \<Rightarrow> OS \<Rightarrow> OS" where
  "sendListen listen err w = (if listen then w\<lparr>listenSent := listenSent w @ [err]\<rparr> else w)"

definition Serve :: "Server \<Rightarrow> bool \<Rightarrow> error option \<Rightarrow> event list \<Rightarrow> OS \<Rightarrow> (Server \<times> OS) outcome" where
  "Serve srv listen fault evs w =
     (case net_Listen (addr srv) fault (snd (os_Remove (addr srv) w)) of
        (Inl err, w1) \<Rightarrow> Returned err (srv\<lparr>listener := None\<rparr>, sendListen listen (Some err) w1)
      | (Inr l, w1) \<Rightarrow>
          (let w2 = sendListen listen None w1;
               w3 = w2\<lparr>logged := logged w2 @ [DebugEntry ''Unix socket is listening'' (addr srv)]\<rparr>
           in case acceptLoop (srv\<lparr>listener := Some l\<rparr>) w3 evs of
                Blocked s \<Rightarrow> Blocked s
              | Returned err (srv', w4) \<Rightarrow>
                  (case Shutdown srv' w4 of
                     (_, srv'', w5) \<Rightarrow>
                       Returned err (srv'', snd (os_Remove (addr srv'') w5)))))"

text \<open>The number of \<^verbatim>\<open>Close\<close> calls the server's listener has seen.\<close>

definition listenerCloseCalls :: "Server \<Rightarrow> nat" where
  "listenerCloseCalls srv = (case listener srv of None \<Rightarrow> 0 | Some l \<Rightarrow> closeCalls l)"

text \<open>\<open>n\<close> calls of \<^verbatim>\<open>Shutdown\<close> one after the other, with the errors they return.\<close>

fun repeatShutdown :: "nat \<Rightarrow> Server \<Rightarrow> OS \<Rightarrow> error option list \<times> Server \<times> OS" where
  "repeatShutdown 0 srv w = ([], srv, w)"
| "repeatShutdown (Suc n) srv w =
     (case Shutdown srv w of
        (err, srv', w') \<Rightarrow>
          (case repeatShutdown n srv' w' of (errs, s) \<Rightarrow> (err # errs, s)))"

text \<open>Examples: an empty system, a handler that answers OK, a server on a socket path.\<close>

definition emptyOS :: OS where
  "emptyOS =
     \<lparr>files = {}, removeFault = (\<lambda>name. None), logged = [], listenSent = [], served = []\<rparr>"

definition okHandler :: HTTPHandlerFunc where
  "okHandler r = [CallWriteHeader 200, CallWrite ''OK'']"

definition exampleServer :: Server where
  "exampleServer = NewServer ''/tmp/dagu.sock'' okHandler"

definition boundListener :: Listener where
  "boundListener = \<lparr>path = ''/tmp/dagu.sock'', closeFault = None, isClosed = False, closeCalls = 0\<rparr>"

definition staleOS :: OS where
  "staleOS = emptyOS\<lparr>files := {''/tmp/dagu.sock''}\<rparr>"

definition listeningServer :: Server where
  "listeningServer = exampleServer\<lparr>listener := Some boundListener\<rparr>"

definition listeningOS :: OS where
  "listeningOS =
     \<lparr>files = {''/tmp/dagu.sock''}, removeFault = (\<lambda>name. None),
      logged = [DebugEntry ''Unix socket is listening'' ''/tmp/dagu.sock''],
      listenSent = [None], served = []\<rparr>"

text \<open>A system where the stale socket file belongs to somebody else and cannot be removed.\<close>

definition stuckOS :: OS where
  "stuckOS =
     staleOS\<lparr>removeFault :=
       (\<lambda>name. Some (Plain (''remove '' @ name @ '': operation not permitted'')))\<rparr>"

text \<open>
  The state of a server between the call of \<^verbatim>\<open>Serve\<close> and its return: either nobody
  has asked it to stop and its listener is open on its address, or the flag is set and the
  socket file is gone.
\<close>

definition serving :: "Server \<Rightarrow> OS \<Rightarrow> bool" where
  "serving srv w =
     (if quit srv then addr srv \<notin> files w
      else (case listener srv of
              None \<Rightarrow> False
            | Some l \<Rightarrow> path l = addr srv \<and> \<not> isClosed l))"

section \<open>The docker executor (package executor, docker.go)\<close>

subsection \<open>Numbers in messages\<close>

text \<open>The decimal form of an integer, as \<^verbatim>\<open>%d\<close> and \<^verbatim>\<open>%v\<close> print it.\<close>

definition digitChar :: "nat \<Rightarrow> char" where
  "digitChar d = ''0123456789'' ! d"

function decimalNat :: "nat \<Rightarrow> string" where
  "decimalNat n = (if n < 10 then [digitChar n] else decimalNat (n div 10) @ [digitChar (n mod 10)])"
  by pat_completeness auto
termination
  by (relation "measure id") auto

definition decimal :: "int \<Rightarrow> string" where
  "decimal i = (if i < 0 then CHR ''-'' # decimalNat (nat (- i)) else decimalNat (nat i))"

subsection \<open>Writers and the multiplexed stream\<close>

text \<open>
  An \<^verbatim>\<open>io.Writer\<close> is known by its identity; \<open>outputs\<close> of the state below holds
  what has been written to each. A stream of the docker daemon is a list of frames, each
  with the kind of its stream. \<^verbatim>\<open>stdcopy.StdCopy(dstout, dsterr, src)\<close> writes the
  frames of the standard input and output to \<open>dstout\<close>, those of the standard error to
  \<open>dsterr\<close>, and stops with an error at a frame of the daemon's own errors.
\<close>

datatype Writer = os_Stdout | FileWriter nat

datatype StdType = Stdin | Stdout | Stderr | Systemerr

type_synonym frame = "StdType \<times> string"

fun StdCopy :: "Writer \<Rightarrow> Writer \<Rightarrow> frame list \<Rightarrow> (Writer \<Rightarrow> string) \<Rightarrow>
    error option \<times> (Writer \<Rightarrow> string)" where
  "StdCopy dstout dsterr [] out = (None, out)"
| "StdCopy dstout dsterr ((Systemerr, d) # src) out =
     (Some (Plain (''error from daemon in stream: '' @ d)), out)"
| "StdCopy dstout dsterr ((Stderr, d) # src) out =
     StdCopy dstout dsterr src (out(dsterr := out dsterr @ d))"
| "StdCopy dstout dsterr ((Stdout, d) # src) out =
     StdCopy dstout dsterr src (out(dstout := out dstout @ d))"
| "StdCopy dstout dsterr ((Stdin, d) # src) out =
     StdCopy dstout dsterr src (out(dstout := out dstout @ d))"

subsection \<open>The executor and the daemon\<close>

record Step =
  Name :: string
  Command :: string
  Args :: "string list"

text \<open>
  The two functions that the field \<^verbatim>\<open>cancel\<close> holds: the \<^verbatim>\<open>cancelFunc\<close> of
  \<^verbatim>\<open>context.WithCancel\<close>, and the closure \<^verbatim>\<open>Run\<close> installs once the container
  is created, which calls \<^verbatim>\<open>removeContainer\<close> and then \<^verbatim>\<open>cancelFunc\<close>.
  \<open>None\<close> is the nil function.
\<close>

datatype cancelFunc = CancelContext | RemoveThenCancel

record containerConfig =
  Image :: string
  Cmd :: "string list"

text \<open>
  The struct \<^verbatim>\<open>docker\<close>. \<open>ctxDone\<close> is the state of the context in the field
  \<^verbatim>\<open>context\<close>; \<open>removing\<close> and \<open>respID\<close> are the variables that the closure
  \<^verbatim>\<open>removeContainer\<close> captures. The host and exec configurations only travel to the
  daemon and are left out.
\<close>

record docker =
  image' :: string
  containerName :: string
  pull :: bool
  autoRemove :: bool
  step :: Step
  stdout :: Writer
  ctxDone :: bool
  cancel :: "cancelFunc option"
  config :: containerConfig
  removing :: bool
  respID :: string

text \<open>
  What the docker client answers to each call of the executor; the answers come from the
  daemon, so they are given. \<open>ContainerWait\<close> is what arrives first on the two channels
  (\<open>None\<close>: nothing ever arrives); \<open>ContainerExecInspect\<close> lists the answers to the
  successive polls of the exec, each with whether the context is done when the
  \<^verbatim>\<open>select\<close> after it looks.
\<close>

datatype waitResult = WaitErr "error option" | WaitStatus int

record execInspect =
  Running :: bool
  ExitCode :: int

record execPoll =
  inspect :: "error + execInspect"
  doneAtSelect :: bool

record dockerAPI =
  NewClientWithOpts :: "error option"
  ImagePull :: "error + string"
  CopyFault :: "error option"
  ContainerCreate :: "error + string"
  ContainerRemove :: "error option"
  ContainerStart :: "error option"
  ContainerLogs :: "error + frame list"
  ContainerWait :: "waitResult option"
  ContainerInspect :: "error + bool"
  ContainerExecCreate :: "error + string"
  ContainerExecAttach :: "error + frame list"
  ContainerExecInspect :: "execPoll list"

text \<open>
  What the executor changes outside itself: the contents of the writers, the containers it
  asked the daemon to remove, and the log.
\<close>

record DockerState =
  outputs :: "Writer \<Rightarrow> string"
  removed :: "string list"
  dockerLog :: "logEntry list"

definition SetStdout :: "docker \<Rightarrow> Writer \<Rightarrow> docker" where
  "SetStdout e out = e\<lparr>stdout := out\<rparr>"

definition SetStderr :: "docker \<Rightarrow> Writer \<Rightarrow> docker" where
  "SetStderr e out = e\<lparr>stdout := out\<rparr>"

text \<open>The closure \<^verbatim>\<open>removeContainer\<close> of \<^verbatim>\<open>Run\<close>.\<close>

definition removeContainer :: "dockerAPI \<Rightarrow> docker \<Rightarrow> DockerState \<Rightarrow> docker \<times> DockerState" where
  "removeContainer api e w =
     (if \<not> autoRemove e \<or> removing e then (e, w)
      else (e\<lparr>removing := True\<rparr>,
            (case ContainerRemove api of
               Some err \<Rightarrow>
                 w\<lparr>removed := removed w @ [respID e],
                   dockerLog := dockerLog w
                     @ [ErrorEntry ''docker executor: remove container'' err]\<rparr>
             | None \<Rightarrow> w\<lparr>removed := removed w @ [respID e]\<rparr>)))"

text \<open>
  Calling a function value: a call of the nil function panics, which is \<open>None\<close>.
\<close>

definition callCancel :: "cancelFunc option \<Rightarrow> dockerAPI \<Rightarrow> docker \<Rightarrow> DockerState \<Rightarrow>
    (docker \<times> DockerState) option" where
  "callCancel f api e w =
     (case f of
        None \<Rightarrow> None
      | Some CancelContext \<Rightarrow> Some (e\<lparr>ctxDone := True\<rparr>, w)
      | Some RemoveThenCancel \<Rightarrow>
          (case removeContainer api e w of (e', w') \<Rightarrow> Some (e'\<lparr>ctxDone := True\<rparr>, w')))"

text \<open>
  \<^verbatim>\<open>(e *docker) Kill(sig)\<close>: \<open>None\<close> for a panic, else the error returned with
  the executor and the state afterwards. The signal is not used.
\<close>

definition Kill :: "dockerAPI \<Rightarrow> docker \<Rightarrow> DockerState \<Rightarrow>
    (error option \<times> docker \<times> DockerState) option" where
  "Kill api e w =
     (if cancel e \<noteq> None
      then (case callCancel (cancel e) api e w of
              None \<Rightarrow> None
            | Some (e', w') \<Rightarrow> Some (None, e', w'))
      else Some (None, e, w))"

fun repeatKill :: "nat \<Rightarrow> dockerAPI \<Rightarrow> docker \<Rightarrow> DockerState \<Rightarrow>
    (error option list \<times> docker \<times> DockerState) option" where
  "repeatKill 0 api e w = Some ([], e, w)"
| "repeatKill (Suc n) api e w =
     (case Kill api e w of
        None \<Rightarrow> None
      | Some (err, e', w') \<Rightarrow>
          (case repeatKill n api e' w' of
             None \<Rightarrow> None
           | Some (errs, s) \<Rightarrow> Some (err # errs, s)))"

text \<open>
  The result of \<^verbatim>\<open>Run\<close>: \<open>Done err\<close> when it has returned \<open>err\<close>,
  \<open>Waiting\<close> when it waits for the container or the exec and nothing more arrives.
\<close>

datatype runResult = Done "error option" | Waiting

text \<open>
  The goroutine that copies a stream of the daemon, run to its end: both destinations of
  \<^verbatim>\<open>StdCopy\<close> are the field \<^verbatim>\<open>stdout\<close>.
\<close>

definition copyStream :: "docker \<Rightarrow> frame list \<Rightarrow> DockerState \<Rightarrow> DockerState" where
  "copyStream e src w =
     (case StdCopy (stdout e) (stdout e) src (outputs w) of
        (Some err, out) \<Rightarrow>
          w\<lparr>outputs := out,
            dockerLog := dockerLog w @ [ErrorEntry ''docker executor: stdcopy'' err]\<rparr>
      | (None, out) \<Rightarrow> w\<lparr>outputs := out\<rparr>)"

definition attachAndWait :: "dockerAPI \<Rightarrow> docker \<Rightarrow> DockerState \<Rightarrow> runResult \<times> DockerState" where
  "attachAndWait api e w =
     (case ContainerLogs api of
        Inl err \<Rightarrow> (Done (Some err), w)
      | Inr out \<Rightarrow>
          (let w1 = copyStream e out w
           in case ContainerWait api of
                None \<Rightarrow> (Waiting, w1)
              | Some (WaitErr err) \<Rightarrow>
                  (if err \<noteq> None then (Done err, w1) else (Done None, w1))
              | Some (WaitStatus status) \<Rightarrow>
                  (if status \<noteq> 0
                   then (Done (Some (Plain (''exit status '' @ decimal status))), w1)
                   else (Done None, w1))))"

text \<open>The loop of \<^verbatim>\<open>execInContainer\<close> that waits for the exec to complete.\<close>

fun waitExec :: "execPoll list \<Rightarrow> runResult" where
  "waitExec [] = Waiting"
| "waitExec (p # polls) =
     (case inspect p of
        Inl err \<Rightarrow> Done (Some (Errorf_w (''failed to inspect exec: '' @ Error err) err))
      | Inr inspectResp \<Rightarrow>
          (if \<not> Running inspectResp
           then (if ExitCode inspectResp \<noteq> 0
                 then Done (Some (Plain (''exec failed with exit code: ''
                                         @ decimal (ExitCode inspectResp))))
                 else Done None)
           else if doneAtSelect p then Done (Some (Plain ''context canceled''))
           else waitExec polls))"

definition execInContainer :: "dockerAPI \<Rightarrow> docker \<Rightarrow> DockerState \<Rightarrow> runResult \<times> DockerState" where
  "execInContainer api e w =
     (case ContainerInspect api of
        Inl err \<Rightarrow>
          (Done (Some (Errorf_w (''failed to inspect container '' @ containerName e @ '': ''
                                 @ Error err) err)), w)
      | Inr running \<Rightarrow>
          (if \<not> running
           then (Done (Some (Plain (''container '' @ containerName e @ '' is not running''))), w)
           else (case ContainerExecCreate api of
                   Inl err \<Rightarrow>
                     (Done (Some (Errorf_w (''failed to create exec: '' @ Error err) err)), w)
                 | Inr execID \<Rightarrow>
                     (case ContainerExecAttach api of
                        Inl err \<Rightarrow>
                          (Done (Some (Errorf_w (''failed to start exec: '' @ Error err) err)), w)
                      | Inr resp \<Rightarrow>
                          (waitExec (ContainerExecInspect api), copyStream e resp w)))))"

text \<open>
  \<^verbatim>\<open>(e *docker) Run(ctx)\<close>. The deferred \<^verbatim>\<open>removeContainer\<close> runs when
  \<^verbatim>\<open>Run\<close> returns after the container is created.
\<close>

definition runContainer :: "dockerAPI \<Rightarrow> docker \<Rightarrow> DockerState \<Rightarrow> runResult \<times> docker \<times> DockerState" where
  "runContainer api e w =
     (let e1 = (if image' e \<noteq> [] then e\<lparr>config := (config e)\<lparr>Image := image' e\<rparr>\<rparr> else e);
          e2 = e1\<lparr>config := (config e1)\<lparr>Cmd := Command (step e1) # Args (step e1)\<rparr>\<rparr>
      in case ContainerCreate api of
           Inl err \<Rightarrow> (Done (Some err), e2, w)
         | Inr ID \<Rightarrow>
             (let e3 = e2\<lparr>removing := False, respID := ID, cancel := Some RemoveThenCancel\<rparr>
              in case ContainerStart api of
                   Some err \<Rightarrow>
                     (case removeContainer api e3 w of (e4, w4) \<Rightarrow> (Done (Some err), e4, w4))
                 | None \<Rightarrow>
                     (case attachAndWait api e3 w of
                        (Waiting, w4) \<Rightarrow> (Waiting, e3, w4)
                      | (Done r, w4) \<Rightarrow>
                          (case removeContainer api e3 w4 of (e5, w5) \<Rightarrow> (Done r, e5, w5)))))"

definition Run :: "dockerAPI \<Rightarrow> docker \<Rightarrow> DockerState \<Rightarrow> runResult \<times> docker \<times> DockerState" where
  "Run api e w =
     (let e0 = e\<lparr>ctxDone := False, cancel := Some CancelContext\<rparr>
      in case NewClientWithOpts api of
           Some err \<Rightarrow> (Done (Some err), e0, w)
         | None \<Rightarrow>
             (if containerName e0 \<noteq> []
              then (case execInContainer api e0 w of (r, w') \<Rightarrow> (r, e0, w'))
              else if pull e0
              then (case ImagePull api of
                      Inl err \<Rightarrow> (Done (Some err), e0, w)
                    | Inr reader \<Rightarrow>
                        (case CopyFault api of
                           Some err \<Rightarrow> (Done (Some err), e0, w)
                         | None \<Rightarrow>
                             runContainer api e0
                               (w\<lparr>outputs := (outputs w)
                                    (stdout e0 := outputs w (stdout e0) @ reader)\<rparr>)))
              else runContainer api e0 w))"

subsection \<open>When the executor gets to see how the work ended\<close>

definition succeeded :: "error + 'a \<Rightarrow> bool" where
  "succeeded r = (case r of Inl err \<Rightarrow> False | Inr x \<Rightarrow> True)"

text \<open>
  Every call that \<^verbatim>\<open>Run\<close> makes before it waits for a new container succeeds: the
  client, the pull and its copy when asked for, the creation, the start and the logs.
\<close>

definition containerStarted :: "docker \<Rightarrow> dockerAPI \<Rightarrow> bool" where
  "containerStarted e api =
     (NewClientWithOpts api = None \<and>
      (if pull e then succeeded (ImagePull api) \<and> CopyFault api = None else True) \<and>
      succeeded (ContainerCreate api) \<and> ContainerStart api = None \<and>
      succeeded (ContainerLogs api))"

text \<open>
  Every call that \<^verbatim>\<open>Run\<close> makes before it polls an exec succeeds, and the container
  is running.
\<close>

definition execStarted :: "dockerAPI \<Rightarrow> bool" where
  "execStarted api =
     (NewClientWithOpts api = None \<and> ContainerInspect api = Inr True \<and>
      succeeded (ContainerExecCreate api) \<and> succeeded (ContainerExecAttach api))"

text \<open>A poll that finds the exec running, the context not done; a poll that finds it ended.\<close>

definition stillRunning :: "execPoll \<Rightarrow> bool" where
  "stillRunning q =
     (case inspect q of Inl err \<Rightarrow> False | Inr st \<Rightarrow> Running st \<and> \<not> doneAtSelect q)"

definition exitedWith :: "int \<Rightarrow> execPoll \<Rightarrow> bool" where
  "exitedWith c p =
     (case inspect p of Inl err \<Rightarrow> False | Inr st \<Rightarrow> \<not> Running st \<and> ExitCode st = c)"

text \<open>Examples: an executor as \<^verbatim>\<open>newDocker\<close> makes it, a daemon where all goes well.\<close>

definition exampleDocker :: docker where
  "exampleDocker =
     \<lparr>image' = ''alpine:latest'', containerName = [], pull = True, autoRemove = True,
      step = \<lparr>Name = ''create-new'', Command = ''echo'', Args = [''Hello'']\<rparr>,
      stdout = os_Stdout, ctxDone = False, cancel = None,
      config = \<lparr>Image = [], Cmd = []\<rparr>, removing = False, respID = []\<rparr>"

definition exampleAPI :: dockerAPI where
  "exampleAPI =
     \<lparr>NewClientWithOpts = None, ImagePull = Inr ''pulled'', CopyFault = None,
      ContainerCreate = Inr ''c1'', ContainerRemove = None, ContainerStart = None,
      ContainerLogs = Inr [(Stdout, ''Hello''), (Stderr, ''oops'')],
      ContainerWait = Some (WaitStatus 0),
      ContainerInspect = Inr True, ContainerExecCreate = Inr ''x1'',
      ContainerExecAttach = Inr [(Stdout, ''Hello''), (Stderr, ''oops'')],
      ContainerExecInspect =
        [\<lparr>inspect = Inr \<lparr>Running = True, ExitCode = 0\<rparr>, doneAtSelect = False\<rparr>,
         \<lparr>inspect = Inr \<lparr>Running = False, ExitCode = 0\<rparr>, doneAtSelect = False\<rparr>]\<rparr>"

definition emptyDockerState :: DockerState where
  "emptyDockerState = \<lparr>outputs = (\<lambda>x. []), removed = [], dockerLog = []\<rparr>"

definition execDocker :: docker where
  "execDocker = exampleDocker\<lparr>image' := [], containerName := ''web''\<rparr>"

definition createdDocker :: docker where
  "createdDocker = exampleDocker\<lparr>cancel := Some RemoveThenCancel, respID := ''c1''\<rparr>"

definition killedDocker :: docker where
  "killedDocker = createdDocker\<lparr>removing := True, ctxDone := True\<rparr>"

definition killedDockerState :: DockerState where
  "killedDockerState = emptyDockerState\<lparr>removed := [''c1'']\<rparr>"

section \<open>Properties of the precondition evaluation\<close>

lemma evalCondition_None_iff: "evalCondition ctx c = None \<longleftrightarrow> condition_met ctx c"
  by (auto simp: evalCondition_def condition_met_def
      split: prod.splits option.splits if_splits)

lemma Condition_eval_err_False: "Condition_eval ctx c = (m, Some err) \<Longrightarrow> m = False"
  by (auto simp: Condition_eval_def Condition_evalCondition_def Condition_evalCommand_def
      split: if_splits sum.splits option.splits)

lemma evalCondition_wraps:
  "evalCondition ctx c = Some e \<Longrightarrow>
     errors_Is e ErrConditionNotMet \<longleftrightarrow>
       (Condition_eval ctx c = (False, None) \<or>
        (\<exists>err. Condition_eval ctx c = (False, Some err) \<and> errors_Is err ErrConditionNotMet))"
  by (auto simp: evalCondition_def split: prod.splits option.splits if_splits
      dest: Condition_eval_err_False)

lemma EvalConditions_nil_iff:
  "fst (EvalConditions ctx cond) = None \<longleftrightarrow> (\<forall>c \<in> set cond. condition_met ctx c)"
  by (induction cond)
    (auto simp: evalCondition_None_iff[symmetric] split: option.splits prod.splits)

lemma EvalConditions_nil_trace:
  "fst (EvalConditions ctx cond) = None \<Longrightarrow> snd (EvalConditions ctx cond) = cond"
  by (induction cond) (auto split: option.splits prod.splits)

lemma EvalConditions_first:
  "fst (EvalConditions ctx cond) = Some e \<Longrightarrow>
     \<exists>pre c post. cond = pre @ c # post \<and> (\<forall>p \<in> set pre. condition_met ctx p) \<and>
        \<not> condition_met ctx c \<and> evalCondition ctx c = Some e \<and>
        snd (EvalConditions ctx cond) = pre @ [c]"
proof (induction cond)
  case Nil
  then show ?case by simp
next
  case (Cons a cond)
  show ?case
  proof (cases "evalCondition ctx a")
    case None
    with Cons.prems have "fst (EvalConditions ctx cond) = Some e"
      by (simp add: case_prod_unfold)
    from Cons.IH[OF this] obtain pre c post where
      h: "cond = pre @ c # post" "\<forall>p \<in> set pre. condition_met ctx p"
         "\<not> condition_met ctx c" "evalCondition ctx c = Some e"
         "snd (EvalConditions ctx cond) = pre @ [c]" by blast
    from None have "condition_met ctx a" by (simp add: evalCondition_None_iff)
    with h None have "a # cond = (a # pre) @ c # post \<and>
        (\<forall>p \<in> set (a # pre). condition_met ctx p) \<and>
        \<not> condition_met ctx c \<and> evalCondition ctx c = Some e \<and>
        snd (EvalConditions ctx (a # cond)) = (a # pre) @ [c]"
      by (simp add: case_prod_unfold)
    then show ?thesis by blast
  next
    case (Some err)
    with Cons.prems have "err = e" by simp
    with Some have "a # cond = [] @ a # cond \<and> (\<forall>p \<in> set []. condition_met ctx p) \<and>
        \<not> condition_met ctx a \<and> evalCondition ctx a = Some e \<and>
        snd (EvalConditions ctx (a # cond)) = [] @ [a]"
      by (simp add: evalCondition_None_iff[symmetric])
    then show ?thesis by blast
  qed
qed

text \<open>
  Claim C1, as the code has it. \<^verbatim>\<open>EvalConditions\<close> returns nil exactly when every
  condition of the list is met, and then it has evaluated all of them in declared order.
  Otherwise the list splits at the first condition that is not met: every condition before
  it is met, the error returned is the one \<^verbatim>\<open>evalCondition\<close> gives for it, and the
  conditions evaluated are those up to and including it, none after it. That error wraps
  \<^verbatim>\<open>ErrConditionNotMet\<close> exactly when the condition evaluated to a mismatch or its
  evaluation failed with an error that is itself the sentinel (a failed command); any other
  failure of the evaluation gives an error that does not wrap the sentinel.
\<close>

theorem EvalConditions_first_unmet:
  "(fst (EvalConditions ctx cond) = None \<longleftrightarrow> (\<forall>c \<in> set cond. condition_met ctx c)) \<and>
   (fst (EvalConditions ctx cond) = None \<longrightarrow> snd (EvalConditions ctx cond) = cond) \<and>
   (\<forall>e. fst (EvalConditions ctx cond) = Some e \<longrightarrow>
      (\<exists>pre c post. cond = pre @ c # post \<and> (\<forall>p \<in> set pre. condition_met ctx p) \<and>
         \<not> condition_met ctx c \<and> evalCondition ctx c = Some e \<and>
         snd (EvalConditions ctx cond) = pre @ [c] \<and>
         (errors_Is e ErrConditionNotMet \<longleftrightarrow>
            (Condition_eval ctx c = (False, None) \<or>
             (\<exists>err. Condition_eval ctx c = (False, Some err) \<and>
                    errors_Is err ErrConditionNotMet)))))"
proof (intro conjI allI impI)
  show "fst (EvalConditions ctx cond) = None \<longleftrightarrow> (\<forall>c \<in> set cond. condition_met ctx c)"
    by (rule EvalConditions_nil_iff)
next
  assume "fst (EvalConditions ctx cond) = None"
  then show "snd (EvalConditions ctx cond) = cond" by (rule EvalConditions_nil_trace)
next
  fix e
  assume "fst (EvalConditions ctx cond) = Some e"
  from EvalConditions_first[OF this] obtain pre c post where
    h: "cond = pre @ c # post" "\<forall>p \<in> set pre. condition_met ctx p"
       "\<not> condition_met ctx c" "evalCondition ctx c = Some e"
       "snd (EvalConditions ctx cond) = pre @ [c]" by blast
  from evalCondition_wraps[OF h(4)] h
  show "\<exists>pre c post. cond = pre @ c # post \<and> (\<forall>p \<in> set pre. condition_met ctx p) \<and>
         \<not> condition_met ctx c \<and> evalCondition ctx c = Some e \<and>
         snd (EvalConditions ctx cond) = pre @ [c] \<and>
         (errors_Is e ErrConditionNotMet \<longleftrightarrow>
            (Condition_eval ctx c = (False, None) \<or>
             (\<exists>err. Condition_eval ctx c = (False, Some err) \<and>
                    errors_Is err ErrConditionNotMet)))"
    by blast
qed

lemma EvalConditions_mismatch_example:
  "EvalConditions echoContext [matchingCondition, mismatchingCondition, matchingCondition] =
     (Some (Errorf_w ''condition was not met: Condition=1 Expected=0'' ErrConditionNotMet),
      [matchingCondition, mismatchingCondition])"
  by (simp add: evalCondition_def Condition_eval_def Condition_evalCondition_def
      echoContext_def matchingCondition_def mismatchingCondition_def)

theorem EvalConditions_first_unmet_witness:
  "fst (EvalConditions echoContext
          [matchingCondition, mismatchingCondition, matchingCondition]) =
     Some (Errorf_w ''condition was not met: Condition=1 Expected=0'' ErrConditionNotMet) \<and>
   (\<exists>pre c post.
      [matchingCondition, mismatchingCondition, matchingCondition] = pre @ c # post \<and>
      \<not> condition_met echoContext c \<and>
      snd (EvalConditions echoContext
             [matchingCondition, mismatchingCondition, matchingCondition]) = pre @ [c])"
proof -
  have h: "fst (EvalConditions echoContext
                  [matchingCondition, mismatchingCondition, matchingCondition]) =
     Some (Errorf_w ''condition was not met: Condition=1 Expected=0'' ErrConditionNotMet)"
    by (simp only: EvalConditions_mismatch_example fst_conv)
  from EvalConditions_first_unmet
         [of echoContext "[matchingCondition, mismatchingCondition, matchingCondition]"] h
  show ?thesis by blast
qed

text \<open>
  The claim as stated fails: a condition with neither \<^verbatim>\<open>Condition\<close> nor
  \<^verbatim>\<open>Command\<close> is not met, \<^verbatim>\<open>EvalConditions\<close> returns an error for it, and
  that error does not wrap \<^verbatim>\<open>ErrConditionNotMet\<close>.
\<close>

theorem EvalConditions_sentinel_counterexample:
  "\<not> condition_met echoContext invalidCondition \<and>
   fst (EvalConditions echoContext [invalidCondition]) =
     Some (Plain ''failed to evaluate condition: Condition= Error=invalid condition: Condition='') \<and>
   \<not> errors_Is
        (Plain ''failed to evaluate condition: Condition= Error=invalid condition: Condition='')
        ErrConditionNotMet"
  by (simp add: condition_met_def evalCondition_def Condition_eval_def invalidCondition_def)

section \<open>Properties of the unix socket frontend\<close>

subsection \<open>Shutdown\<close>

lemma Shutdown_sets_quit: "quit (fst (snd (Shutdown srv w)))"
  by (simp add: Shutdown_def Listener_Close_def split: option.splits prod.splits)

lemma Shutdown_quit_noop: "quit srv \<Longrightarrow> Shutdown srv w = (None, srv, w)"
  by (simp add: Shutdown_def)

lemma Shutdown_closeCalls:
  "listenerCloseCalls (fst (snd (Shutdown srv w))) \<le> Suc (listenerCloseCalls srv)"
  by (simp add: Shutdown_def Listener_Close_def listenerCloseCalls_def
      split: option.splits prod.splits)

lemma Shutdown_addr: "addr (fst (snd (Shutdown srv w))) = addr srv"
  by (simp add: Shutdown_def Listener_Close_def split: option.splits prod.splits)

lemma repeatShutdown_quit:
  "quit srv \<Longrightarrow> repeatShutdown n srv w = (replicate n None, srv, w)"
  by (induction n) (simp_all add: Shutdown_quit_noop)

text \<open>
  Claim C3. After a first call of \<^verbatim>\<open>Shutdown\<close>, a second call returns nil and leaves
  the server and the system as they are, and so do any \<open>n\<close> later calls; the first call
  has closed the listener at most once, and the later calls do not close it at all.
\<close>

theorem Shutdown_idempotent:
  "(case Shutdown srv w of
      (err1, srv1, w1) \<Rightarrow>
        Shutdown srv1 w1 = (None, srv1, w1) \<and>
        repeatShutdown n srv1 w1 = (replicate n None, srv1, w1) \<and>
        listenerCloseCalls srv1 \<le> Suc (listenerCloseCalls srv))"
proof -
  obtain err1 srv1 w1 where s: "Shutdown srv w = (err1, srv1, w1)"
    by (cases "Shutdown srv w") auto
  from Shutdown_sets_quit[of srv w] s have q: "quit srv1" by simp
  from Shutdown_closeCalls[of srv w] s
  have c: "listenerCloseCalls srv1 \<le> Suc (listenerCloseCalls srv)" by simp
  from q c s show ?thesis by (simp add: Shutdown_quit_noop repeatShutdown_quit)
qed

lemma Shutdown_listening_example:
  "Shutdown listeningServer listeningOS =
     (None,
      listeningServer\<lparr>quit := True,
        listener := Some (boundListener\<lparr>isClosed := True, closeCalls := 1\<rparr>)\<rparr>,
      listeningOS\<lparr>files := {}\<rparr>)"
  by (simp add: Shutdown_def Listener_Close_def listeningServer_def exampleServer_def
      NewServer_def boundListener_def listeningOS_def)

subsection \<open>The accept loop\<close>

lemma acceptLoop_only_sentinel:
  "acceptLoop srv w evs = Returned err s \<Longrightarrow> err = ErrServerRequestedShutdown"
proof (induction srv w evs rule: acceptLoop.induct)
  case (1 srv w)
  then show ?case by simp
next
  case (2 srv w evs)
  then show ?case by (auto split: prod.splits)
next
  case (3 srv w c evs)
  then show ?case
    by (auto simp: acceptIteration_def split: prod.splits option.splits if_splits)
next
  case (4 srv w e evs)
  then show ?case
    by (auto simp: acceptIteration_def split: prod.splits option.splits if_splits)
qed

text \<open>
  Claim C4, as the code has it. When the quit flag is set, the next \<^verbatim>\<open>Accept\<close> that
  completes, with a connection or with an error, makes the loop return
  \<^verbatim>\<open>ErrServerRequestedShutdown\<close>. When the flag is not set, an error of
  \<^verbatim>\<open>Accept\<close> changes nothing, the log included, and the loop accepts again. The loop
  returns no error but the sentinel.
\<close>

theorem accept_loop_shutdown_or_retry:
  "(quit srv \<longrightarrow>
      acceptLoop srv w (AcceptFailed e # evs) = Returned ErrServerRequestedShutdown (srv, w) \<and>
      acceptLoop srv w (Accepted c # evs) = Returned ErrServerRequestedShutdown (srv, w)) \<and>
   (\<not> quit srv \<longrightarrow>
      acceptIteration srv w (AcceptErr e) = (None, w) \<and>
      acceptLoop srv w (AcceptFailed e # evs) = acceptLoop srv w evs) \<and>
   (\<forall>err s. acceptLoop srv w evs = Returned err s \<longrightarrow> err = ErrServerRequestedShutdown)"
  using acceptLoop_only_sentinel by (auto simp: acceptIteration_def)

theorem accept_loop_shutdown_or_retry_witness:
  "quit (listeningServer\<lparr>quit := True\<rparr>) \<and>
   acceptLoop (listeningServer\<lparr>quit := True\<rparr>) listeningOS
     [AcceptFailed (Plain ''use of closed network connection'')] =
     Returned ErrServerRequestedShutdown (listeningServer\<lparr>quit := True\<rparr>, listeningOS) \<and>
   \<not> quit listeningServer \<and>
   acceptLoop listeningServer listeningOS [AcceptFailed (Plain ''accept: too many open files'')] =
     Blocked (listeningServer, listeningOS)"
proof -
  have q: "quit (listeningServer\<lparr>quit := True\<rparr>)" by simp
  have n: "\<not> quit listeningServer"
    by (simp add: listeningServer_def exampleServer_def NewServer_def)
  from accept_loop_shutdown_or_retry
         [of "listeningServer\<lparr>quit := True\<rparr>" listeningOS
             "Plain ''use of closed network connection''" "[]"] q
  have a: "acceptLoop (listeningServer\<lparr>quit := True\<rparr>) listeningOS
     [AcceptFailed (Plain ''use of closed network connection'')] =
     Returned ErrServerRequestedShutdown (listeningServer\<lparr>quit := True\<rparr>, listeningOS)"
    by blast
  from accept_loop_shutdown_or_retry
         [of listeningServer listeningOS "Plain ''accept: too many open files''" "[]"] n
  have b: "acceptLoop listeningServer listeningOS
             [AcceptFailed (Plain ''accept: too many open files'')] =
           Blocked (listeningServer, listeningOS)"
    by simp
  from q n a b show ?thesis by blast
qed

text \<open>
  The claim as stated fails where it says that the error is logged: a server that is not
  asked to stop gets an error from \<^verbatim>\<open>Accept\<close>, goes on waiting, and its log holds
  the entry of the start only.
\<close>

theorem accept_error_logged_counterexample:
  "\<not> quit exampleServer \<and>
   Serve exampleServer True None [AcceptFailed (Plain ''accept: too many open files'')] emptyOS =
     Blocked (listeningServer, listeningOS) \<and>
   logged listeningOS = [DebugEntry ''Unix socket is listening'' ''/tmp/dagu.sock'']"
  by (simp add: Serve_def net_Listen_def os_Remove_def sendListen_def acceptIteration_def
      exampleServer_def NewServer_def emptyOS_def listeningServer_def listeningOS_def
      boundListener_def)

subsection \<open>The socket file\<close>

lemma Shutdown_serving_removes:
  "serving srv w \<Longrightarrow> addr srv \<notin> files (snd (snd (Shutdown srv w)))"
  by (auto simp: serving_def Shutdown_def Listener_Close_def
      split: option.splits prod.splits if_splits)

lemma Shutdown_serving:
  "serving srv w \<Longrightarrow> Shutdown srv w = (e, srv', w') \<Longrightarrow> serving srv' w'"
  using Shutdown_serving_removes[of srv w] Shutdown_sets_quit[of srv w] Shutdown_addr[of srv w]
  by (simp add: serving_def)

lemma serveConn_files: "files (serveConn srv c w) = files w"
  by (simp add: serveConn_def split: sum.splits prod.splits)

lemma acceptLoop_serving:
  "serving srv w \<Longrightarrow> acceptLoop srv w evs = Blocked (srv', w') \<Longrightarrow>
     serving srv' w' \<and> addr srv' = addr srv"
proof (induction srv w evs rule: acceptLoop.induct)
  case (1 srv w)
  then show ?case by simp
next
  case (2 srv w evs)
  obtain e s1 w1 where s: "Shutdown srv w = (e, s1, w1)" by (cases "Shutdown srv w") auto
  from Shutdown_serving[OF "2.prems"(1) s] have "serving s1 w1" .
  moreover from s "2.prems"(2) have "acceptLoop s1 w1 evs = Blocked (srv', w')" by simp
  moreover from Shutdown_addr[of srv w] s have "addr s1 = addr srv" by simp
  ultimately show ?case using "2.IH" s by auto
next
  case (3 srv w c evs)
  then show ?case
    by (auto simp: acceptIteration_def serving_def serveConn_files split: if_splits)
next
  case (4 srv w e evs)
  then show ?case
    by (auto simp: acceptIteration_def split: if_splits)
qed

lemma acceptLoop_returned_addr:
  "acceptLoop srv w evs = Returned err (srv', w') \<Longrightarrow> addr srv' = addr srv"
proof (induction srv w evs rule: acceptLoop.induct)
  case (1 srv w)
  then show ?case by simp
next
  case (2 srv w evs)
  obtain e s1 w1 where s: "Shutdown srv w = (e, s1, w1)" by (cases "Shutdown srv w") auto
  with 2 Shutdown_addr[of srv w] show ?case by simp
next
  case (3 srv w c evs)
  then show ?case
    by (auto simp: acceptIteration_def split: if_splits)
next
  case (4 srv w e evs)
  then show ?case
    by (auto simp: acceptIteration_def split: if_splits)
qed

lemma Serve_blocked_serving:
  assumes "\<not> quit srv" and "Serve srv listen fault evs w = Blocked (srv', w')"
  shows "serving srv' w' \<and> addr srv' = addr srv"
proof -
  from assms(2) obtain l w1 where
    l: "net_Listen (addr srv) fault (snd (os_Remove (addr srv) w)) = (Inr l, w1)"
    by (auto simp: Serve_def Let_def split: prod.splits sum.splits outcome.splits)
  then have pl: "path l = addr srv" "\<not> isClosed l"
    by (auto simp: net_Listen_def split: if_splits option.splits)
  let ?w2 = "sendListen listen None w1"
  let ?w3 = "?w2\<lparr>logged := logged ?w2 @ [DebugEntry ''Unix socket is listening'' (addr srv)]\<rparr>"
  from assms(2) l have b: "acceptLoop (srv\<lparr>listener := Some l\<rparr>) ?w3 evs = Blocked (srv', w')"
    by (auto simp: Serve_def Let_def split: prod.splits outcome.splits)
  from assms(1) pl have "serving (srv\<lparr>listener := Some l\<rparr>) ?w3"
    by (simp add: serving_def)
  from acceptLoop_serving[OF this b] show ?thesis by simp
qed

text \<open>
  Claim C2, as the code has it. Take a server whose quit flag is not set when
  \<^verbatim>\<open>Serve\<close> is called. While \<^verbatim>\<open>Serve\<close> waits in its loop, whatever has happened
  so far, no file exists at the address once a call of \<^verbatim>\<open>Shutdown\<close> has returned.
\<close>

theorem Shutdown_removes_socket_file:
  "\<not> quit srv \<and> Serve srv listen fault evs w = Blocked (srv', w') \<longrightarrow>
     addr srv \<notin> files (snd (snd (Shutdown srv' w')))"
  using Serve_blocked_serving[of srv listen fault evs w srv' w']
        Shutdown_serving_removes[of srv' w']
  by auto

lemma Serve_stale_example:
  "Serve exampleServer True None [] staleOS = Blocked (listeningServer, listeningOS)"
  by (simp add: Serve_def net_Listen_def os_Remove_def sendListen_def
      exampleServer_def NewServer_def emptyOS_def staleOS_def listeningServer_def
      listeningOS_def boundListener_def)

theorem Shutdown_removes_socket_file_witness:
  "\<not> quit exampleServer \<and>
   Serve exampleServer True None [] staleOS = Blocked (listeningServer, listeningOS) \<and>
   ''/tmp/dagu.sock'' \<in> files listeningOS \<and>
   ''/tmp/dagu.sock'' \<notin> files (snd (snd (Shutdown listeningServer listeningOS)))"
proof -
  have n: "\<not> quit exampleServer" by (simp add: exampleServer_def NewServer_def)
  have a: "addr exampleServer = ''/tmp/dagu.sock''"
    by (simp add: exampleServer_def NewServer_def)
  have f: "''/tmp/dagu.sock'' \<in> files listeningOS" by (simp add: listeningOS_def)
  from Shutdown_removes_socket_file
         [of exampleServer True None "[]" staleOS listeningServer listeningOS]
       n Serve_stale_example a
  have b: "''/tmp/dagu.sock'' \<notin> files (snd (snd (Shutdown listeningServer listeningOS)))"
    by simp
  from n Serve_stale_example f b show ?thesis by blast
qed

text \<open>
  The claim as stated fails for a server whose \<^verbatim>\<open>Shutdown\<close> was called before
  \<^verbatim>\<open>Serve\<close>: the flag is set already, \<^verbatim>\<open>Serve\<close> binds the socket and waits,
  and a call of \<^verbatim>\<open>Shutdown\<close> then returns nil without closing the listener, the
  socket file still there.
\<close>

theorem Shutdown_socket_file_counterexample:
  "Shutdown exampleServer emptyOS = (None, exampleServer\<lparr>quit := True\<rparr>, emptyOS) \<and>
   Serve (exampleServer\<lparr>quit := True\<rparr>) True None [] emptyOS =
     Blocked (listeningServer\<lparr>quit := True\<rparr>, listeningOS) \<and>
   Shutdown (listeningServer\<lparr>quit := True\<rparr>) listeningOS =
     (None, listeningServer\<lparr>quit := True\<rparr>, listeningOS) \<and>
   ''/tmp/dagu.sock'' \<in> files listeningOS"
  by (simp add: Shutdown_def Serve_def net_Listen_def os_Remove_def sendListen_def
      exampleServer_def NewServer_def emptyOS_def listeningServer_def listeningOS_def
      boundListener_def)

lemma net_Listen_in_use:
  "a \<in> files w \<Longrightarrow> net_Listen a fault w = (Inl (Plain ''bind: address already in use''), w)"
  by (simp add: net_Listen_def)

lemma os_Remove_absent:
  "removeFault w name = None \<Longrightarrow> name \<notin> files (snd (os_Remove name w))"
  by (simp add: os_Remove_def)

lemma os_Remove_stuck:
  "removeFault w name \<noteq> None \<Longrightarrow> snd (os_Remove name w) = w"
  by (auto simp: os_Remove_def)

text \<open>
  Claim C5, as the code has it. \<^verbatim>\<open>Serve\<close> calls \<^verbatim>\<open>os.Remove\<close> on the address
  before it binds the listener, and drops the error. Where the system lets the path be
  removed, \<^verbatim>\<open>net.Listen\<close> finds no file at the address, a stale file or none before:
  the start fails only with the outside failure of \<^verbatim>\<open>Listen\<close>, and without one the
  listener is bound on the address and \<^verbatim>\<open>Serve\<close> waits for connections. Where the
  removal fails and the stale file stays, \<^verbatim>\<open>Listen\<close> finds the address in use and
  \<^verbatim>\<open>Serve\<close> returns that error, the system unchanged but for the error sent on the
  channel.
\<close>

theorem Serve_removes_stale_socket:
  "(removeFault w (addr srv) = None \<longrightarrow>
      (case Serve srv listen fault [] w of
         Returned err s \<Rightarrow> fault = Some err \<and> addr srv \<notin> files (snd s)
       | Blocked s \<Rightarrow>
           fault = None \<and>
           listener (fst s) =
             Some \<lparr>path = addr srv, closeFault = None, isClosed = False, closeCalls = 0\<rparr> \<and>
           addr srv \<in> files (snd s))) \<and>
   (removeFault w (addr srv) \<noteq> None \<and> addr srv \<in> files w \<longrightarrow>
      Serve srv listen fault evs w =
        Returned (Plain ''bind: address already in use'')
          (srv\<lparr>listener := None\<rparr>,
           sendListen listen (Some (Plain ''bind: address already in use'')) w))"
proof (intro conjI impI)
  assume r: "removeFault w (addr srv) = None"
  let ?w1 = "snd (os_Remove (addr srv) w)"
  from os_Remove_absent[OF r] have "addr srv \<notin> files ?w1" .
  then show "case Serve srv listen fault [] w of
         Returned err s \<Rightarrow> fault = Some err \<and> addr srv \<notin> files (snd s)
       | Blocked s \<Rightarrow>
           fault = None \<and>
           listener (fst s) =
             Some \<lparr>path = addr srv, closeFault = None, isClosed = False, closeCalls = 0\<rparr> \<and>
           addr srv \<in> files (snd s)"
    by (simp add: Serve_def net_Listen_def sendListen_def Let_def split: option.splits)
next
  assume a: "removeFault w (addr srv) \<noteq> None \<and> addr srv \<in> files w"
  then have "snd (os_Remove (addr srv) w) = w" by (simp add: os_Remove_stuck)
  with a show "Serve srv listen fault evs w =
        Returned (Plain ''bind: address already in use'')
          (srv\<lparr>listener := None\<rparr>,
           sendListen listen (Some (Plain ''bind: address already in use'')) w)"
    by (simp add: Serve_def net_Listen_in_use)
qed

theorem Serve_removes_stale_socket_witness:
  "removeFault staleOS (addr exampleServer) = None \<and>
   addr exampleServer \<in> files staleOS \<and>
   Serve exampleServer True None [] staleOS = Blocked (listeningServer, listeningOS) \<and>
   removeFault stuckOS (addr exampleServer) \<noteq> None \<and>
   addr exampleServer \<in> files stuckOS \<and>
   Serve exampleServer True None [] stuckOS =
     Returned (Plain ''bind: address already in use'')
       (exampleServer\<lparr>listener := None\<rparr>,
        sendListen True (Some (Plain ''bind: address already in use'')) stuckOS)"
proof -
  have r: "removeFault staleOS (addr exampleServer) = None"
    by (simp add: staleOS_def emptyOS_def)
  have f: "addr exampleServer \<in> files staleOS"
    by (simp add: staleOS_def emptyOS_def exampleServer_def NewServer_def)
  have r': "removeFault stuckOS (addr exampleServer) \<noteq> None"
    by (simp add: stuckOS_def)
  have f': "addr exampleServer \<in> files stuckOS"
    by (simp add: stuckOS_def staleOS_def emptyOS_def exampleServer_def NewServer_def)
  from Serve_removes_stale_socket[where w = staleOS and srv = exampleServer and listen = True
           and fault = None] r
  have a: "case Serve exampleServer True None [] staleOS of
             Returned err s \<Rightarrow> False
           | Blocked s \<Rightarrow> addr exampleServer \<in> files (snd s)"
    by (auto split: outcome.splits)
  from Serve_removes_stale_socket[where w = stuckOS and srv = exampleServer and listen = True
           and fault = None and evs = "[]"] r' f'
  have b: "Serve exampleServer True None [] stuckOS =
     Returned (Plain ''bind: address already in use'')
       (exampleServer\<lparr>listener := None\<rparr>,
        sendListen True (Some (Plain ''bind: address already in use'')) stuckOS)"
    by blast
  from a r f Serve_stale_example r' f' b show ?thesis by blast
qed

text \<open>
  The claim as stated fails where the stale file cannot be removed: \<^verbatim>\<open>os.Remove\<close>
  fails, its error is dropped, \<^verbatim>\<open>net.Listen\<close> finds the address in use, and
  \<^verbatim>\<open>Serve\<close> returns that error with the stale file still there.
\<close>

theorem Serve_stale_socket_counterexample:
  "''/tmp/dagu.sock'' \<in> files stuckOS \<and>
   fst (os_Remove ''/tmp/dagu.sock'' stuckOS) =
     Some (Plain ''remove /tmp/dagu.sock: operation not permitted'') \<and>
   Serve exampleServer True None [] stuckOS =
     Returned (Plain ''bind: address already in use'')
       (exampleServer, stuckOS\<lparr>listenSent := [Some (Plain ''bind: address already in use'')]\<rparr>) \<and>
   ''/tmp/dagu.sock'' \<in>
     files (stuckOS\<lparr>listenSent := [Some (Plain ''bind: address already in use'')]\<rparr>)"
  by (simp add: Serve_def net_Listen_def os_Remove_def sendListen_def
      exampleServer_def NewServer_def emptyOS_def staleOS_def stuckOS_def)

subsection \<open>The response writer\<close>

text \<open>
  Claim C10. \<^verbatim>\<open>Write\<close> returns the byte count 0 and a nil error for every writer,
  every data and every connection, whatever writing the response to the connection gave.
\<close>

theorem Write_returns_zero_nil: "fst (Write w data c) = (0, None)"
  by (simp add: Write_def split: prod.splits)

lemma Write_fault_discarded:
  "writeFault c = Some err \<Longrightarrow>
     Response_Write \<lparr>StatusCode = statusCode w, ProtoMajor = 1, ProtoMinor = 0,
                     Body = data, Header = header w\<rparr> c = (Some err, c) \<and>
     Write w data c = ((0, None), c)"
  by (simp add: Write_def Response_Write_def)

section \<open>Properties of the docker executor\<close>

subsection \<open>Kill\<close>

lemma removeContainer_twice:
  "removeContainer api e w = (e1, w1) \<Longrightarrow> removeContainer api (e1\<lparr>ctxDone := True\<rparr>) w1 = (e1\<lparr>ctxDone := True\<rparr>, w1)"
  by (auto simp: removeContainer_def split: if_splits)

lemma removeContainer_cancel:
  "removeContainer api e w = (e1, w1) \<Longrightarrow> cancel e1 = cancel e"
  by (auto simp: removeContainer_def split: if_splits)

lemma Kill_result:
  "\<exists>e1 w1. Kill api e w = Some (None, e1, w1) \<and> Kill api e1 w1 = Some (None, e1, w1)"
proof (cases "cancel e")
  case None
  then show ?thesis by (simp add: Kill_def)
next
  case (Some f)
  show ?thesis
  proof (cases f)
    case CancelContext
    with Some show ?thesis by (simp add: Kill_def callCancel_def)
  next
    case RemoveThenCancel
    obtain e1 w1 where r: "removeContainer api e w = (e1, w1)"
      by (cases "removeContainer api e w") auto
    from removeContainer_twice[OF r] removeContainer_cancel[OF r] r Some RemoveThenCancel
    show ?thesis by (simp add: Kill_def callCancel_def)
  qed
qed

lemma repeatKill_fixed:
  "Kill api e w = Some (None, e, w) \<Longrightarrow> repeatKill n api e w = Some (replicate n None, e, w)"
  by (induction n) simp_all

text \<open>
  Claim C7. \<^verbatim>\<open>Kill\<close> never panics and returns nil, whatever the field
  \<^verbatim>\<open>cancel\<close> holds; a second call leaves the executor and everything outside it as
  the first call left them, and so do any \<open>n\<close> further calls. While \<^verbatim>\<open>cancel\<close> is
  nil, \<^verbatim>\<open>Kill\<close> changes nothing at all.
\<close>

theorem Kill_idempotent:
  "(\<exists>e1 w1. Kill api e w = Some (None, e1, w1) \<and> Kill api e1 w1 = Some (None, e1, w1) \<and>
       repeatKill n api e1 w1 = Some (replicate n None, e1, w1)) \<and>
   Kill api (e\<lparr>cancel := None\<rparr>) w = Some (None, e\<lparr>cancel := None\<rparr>, w)"
proof -
  from Kill_result[of api e w] obtain e1 w1 where
    k: "Kill api e w = Some (None, e1, w1)" "Kill api e1 w1 = Some (None, e1, w1)" by blast
  from repeatKill_fixed[OF k(2)] k show ?thesis by (simp add: Kill_def)
qed

theorem Kill_idempotent_witness:
  "Kill exampleAPI createdDocker emptyDockerState = Some (None, killedDocker, killedDockerState) \<and>
   Kill exampleAPI killedDocker killedDockerState = Some (None, killedDocker, killedDockerState) \<and>
   cancel exampleDocker = None \<and>
   Kill exampleAPI exampleDocker emptyDockerState = Some (None, exampleDocker, emptyDockerState)"
proof -
  have k: "Kill exampleAPI createdDocker emptyDockerState =
             Some (None, killedDocker, killedDockerState)"
    by (simp add: Kill_def callCancel_def removeContainer_def createdDocker_def
        exampleDocker_def exampleAPI_def killedDocker_def killedDockerState_def
        emptyDockerState_def)
  from Kill_idempotent[of exampleAPI createdDocker emptyDockerState 1] k
  have k2: "Kill exampleAPI killedDocker killedDockerState =
              Some (None, killedDocker, killedDockerState)"
    by auto
  have c: "cancel exampleDocker = None" by (simp add: exampleDocker_def)
  then have "exampleDocker\<lparr>cancel := None\<rparr> = exampleDocker" by simp
  with Kill_idempotent[of exampleAPI exampleDocker emptyDockerState 1]
  have k3: "Kill exampleAPI exampleDocker emptyDockerState =
              Some (None, exampleDocker, emptyDockerState)"
    by simp
  from k k2 c k3 show ?thesis by blast
qed

subsection \<open>The writers\<close>

lemma StdCopy_same:
  "snd (StdCopy d d src out) =
     out(d := out d @ concat (map snd (takeWhile (\<lambda>f. fst f \<noteq> Systemerr) src)))"
proof (induction src arbitrary: out)
  case Nil
  then show ?case by simp
next
  case (Cons f src)
  obtain k dat where f: "f = (k, dat)" by (cases f)
  let ?rest = "concat (map snd (takeWhile (\<lambda>f. fst f \<noteq> Systemerr) src))"
  have "snd (StdCopy d d src (out(d := out d @ dat))) =
          (out(d := out d @ dat))(d := (out(d := out d @ dat)) d @ ?rest)"
    by (rule Cons)
  also have "\<dots> = out(d := out d @ dat @ ?rest)" by simp
  finally have step: "snd (StdCopy d d src (out(d := out d @ dat))) =
                        out(d := out d @ dat @ ?rest)" .
  show ?case
  proof (cases k)
    case Stdin
    with f step show ?thesis by simp
  next
    case Stdout
    with f step show ?thesis by simp
  next
    case Stderr
    with f step show ?thesis by simp
  next
    case Systemerr
    with f show ?thesis by simp
  qed
qed

lemma copyStream_outputs:
  "outputs (copyStream e src w) =
     (outputs w)(stdout e := outputs w (stdout e)
        @ concat (map snd (takeWhile (\<lambda>f. fst f \<noteq> Systemerr) src)))"
proof -
  obtain r out where s: "StdCopy (stdout e) (stdout e) src (outputs w) = (r, out)"
    by (cases "StdCopy (stdout e) (stdout e) src (outputs w)") auto
  with StdCopy_same[of "stdout e" src "outputs w"]
  have "out = (outputs w)(stdout e := outputs w (stdout e)
        @ concat (map snd (takeWhile (\<lambda>f. fst f \<noteq> Systemerr) src)))" by simp
  with s show ?thesis by (cases r) (simp_all add: copyStream_def)
qed

text \<open>
  Claim C9. \<^verbatim>\<open>SetStderr\<close> does what \<^verbatim>\<open>SetStdout\<close> does: it stores its writer
  in the field \<^verbatim>\<open>stdout\<close>, so after \<^verbatim>\<open>SetStdout(out1)\<close> and
  \<^verbatim>\<open>SetStderr(out2)\<close> the executor is as after \<^verbatim>\<open>SetStdout(out2)\<close> alone and
  \<open>out1\<close> is forgotten. The copy of the container's stream, in
  \<^verbatim>\<open>attachAndWait\<close> too, then appends the frames of the standard output and of the
  standard error alike to \<open>out2\<close> and changes no other writer.
\<close>

theorem SetStderr_overwrites_stdout:
  "SetStderr e out = SetStdout e out \<and>
   SetStderr (SetStdout e out1) out2 = SetStdout e out2 \<and>
   stdout (SetStderr (SetStdout e out1) out2) = out2 \<and>
   outputs (copyStream (SetStderr (SetStdout e out1) out2) src w) =
     (outputs w)(out2 := outputs w out2
        @ concat (map snd (takeWhile (\<lambda>f. fst f \<noteq> Systemerr) src))) \<and>
   (ContainerLogs api = Inr src \<longrightarrow>
      outputs (snd (attachAndWait api (SetStderr (SetStdout e out1) out2) w)) =
        (outputs w)(out2 := outputs w out2
           @ concat (map snd (takeWhile (\<lambda>f. fst f \<noteq> Systemerr) src))))"
proof -
  have a: "stdout (SetStderr (SetStdout e out1) out2) = out2"
    by (simp add: SetStderr_def SetStdout_def)
  have "ContainerLogs api = Inr src \<Longrightarrow>
      outputs (snd (attachAndWait api e' w)) = outputs (copyStream e' src w)" for e'
    by (simp add: attachAndWait_def Let_def split: option.splits waitResult.splits)
  with a copyStream_outputs[of "SetStderr (SetStdout e out1) out2" src w]
  show ?thesis by (simp add: SetStderr_def SetStdout_def)
qed

theorem SetStderr_overwrites_stdout_witness:
  "ContainerLogs exampleAPI = Inr [(Stdout, ''Hello''), (Stderr, ''oops'')] \<and>
   outputs (snd (attachAndWait exampleAPI
                   (SetStderr (SetStdout exampleDocker (FileWriter 1)) (FileWriter 2))
                   emptyDockerState)) (FileWriter 2) = ''Hellooops'' \<and>
   outputs (snd (attachAndWait exampleAPI
                   (SetStderr (SetStdout exampleDocker (FileWriter 1)) (FileWriter 2))
                   emptyDockerState)) (FileWriter 1) = []"
proof -
  have l: "ContainerLogs exampleAPI = Inr [(Stdout, ''Hello''), (Stderr, ''oops'')]"
    by (simp add: exampleAPI_def)
  from SetStderr_overwrites_stdout
         [of exampleDocker "FileWriter 2" "FileWriter 1" "FileWriter 2"
             "[(Stdout, ''Hello''), (Stderr, ''oops'')]" emptyDockerState exampleAPI] l
  have "outputs (snd (attachAndWait exampleAPI
                   (SetStderr (SetStdout exampleDocker (FileWriter 1)) (FileWriter 2))
                   emptyDockerState)) =
        (outputs emptyDockerState)(FileWriter 2 := outputs emptyDockerState (FileWriter 2)
           @ concat (map snd (takeWhile (\<lambda>f. fst f \<noteq> Systemerr)
                                [(Stdout, ''Hello''), (Stderr, ''oops'')])))"
    by blast
  with l show ?thesis by (simp add: emptyDockerState_def)
qed

subsection \<open>The result of Run\<close>

lemma waitExec_nil_iff:
  "waitExec polls = Done None \<longleftrightarrow>
     (\<exists>pre p post. polls = pre @ p # post \<and> (\<forall>q \<in> set pre. stillRunning q) \<and> exitedWith 0 p)"
proof (induction polls)
  case Nil
  then show ?case by simp
next
  case (Cons a polls)
  show ?case
  proof (cases "stillRunning a")
    case True
    then have w: "waitExec (a # polls) = waitExec polls"
      by (auto simp: stillRunning_def split: sum.splits)
    from True have ne: "\<not> exitedWith 0 a"
      by (auto simp: stillRunning_def exitedWith_def split: sum.splits)
    show ?thesis
    proof
      assume "waitExec (a # polls) = Done None"
      with w Cons obtain pre p post where
        "polls = pre @ p # post" "\<forall>q \<in> set pre. stillRunning q" "exitedWith 0 p" by auto
      with True have "a # polls = (a # pre) @ p # post \<and> (\<forall>q \<in> set (a # pre). stillRunning q) \<and> exitedWith 0 p"
        by simp
      then show "\<exists>pre p post. a # polls = pre @ p # post \<and> (\<forall>q \<in> set pre. stillRunning q) \<and> exitedWith 0 p"
        by blast
    next
      assume "\<exists>pre p post. a # polls = pre @ p # post \<and> (\<forall>q \<in> set pre. stillRunning q) \<and> exitedWith 0 p"
      then obtain pre p post where h: "a # polls = pre @ p # post" "\<forall>q \<in> set pre. stillRunning q" "exitedWith 0 p"
        by blast
      from h ne obtain pre' where "pre = a # pre'" by (cases pre) auto
      with h have "polls = pre' @ p # post \<and> (\<forall>q \<in> set pre'. stillRunning q) \<and> exitedWith 0 p" by simp
      with Cons w show "waitExec (a # polls) = Done None" by auto
    qed
  next
    case False
    show ?thesis
    proof
      assume d: "waitExec (a # polls) = Done None"
      with False have "exitedWith 0 a"
        by (auto simp: stillRunning_def exitedWith_def split: sum.splits if_splits)
      then have "a # polls = [] @ a # polls \<and> (\<forall>q \<in> set []. stillRunning q) \<and> exitedWith 0 a" by simp
      then show "\<exists>pre p post. a # polls = pre @ p # post \<and> (\<forall>q \<in> set pre. stillRunning q) \<and> exitedWith 0 p"
        by blast
    next
      assume "\<exists>pre p post. a # polls = pre @ p # post \<and> (\<forall>q \<in> set pre. stillRunning q) \<and> exitedWith 0 p"
      then obtain pre p post where h: "a # polls = pre @ p # post" "\<forall>q \<in> set pre. stillRunning q" "exitedWith 0 p"
        by blast
      from h False have "pre = []" by (cases pre) auto
      with h have "exitedWith 0 a" by simp
      then show "waitExec (a # polls) = Done None"
        by (auto simp: exitedWith_def split: sum.splits)
    qed
  qed
qed

lemma waitExec_nonzero:
  "(\<forall>q \<in> set pre. stillRunning q) \<Longrightarrow> exitedWith c p \<Longrightarrow> c \<noteq> 0 \<Longrightarrow>
     waitExec (pre @ p # post) = Done (Some (Plain (''exec failed with exit code: '' @ decimal c)))"
proof (induction pre)
  case Nil
  then show ?case by (auto simp: exitedWith_def split: sum.splits)
next
  case (Cons a pre)
  then show ?case by (auto simp: stillRunning_def split: sum.splits)
qed

lemma Run_exec:
  "containerName e \<noteq> [] \<Longrightarrow>
     fst (Run api e w) =
       (if NewClientWithOpts api = None then fst (execInContainer api (e\<lparr>ctxDone := False, cancel := Some CancelContext\<rparr>) w)
        else Done (NewClientWithOpts api))"
  by (auto simp: Run_def Let_def split: option.splits prod.splits)

lemma execInContainer_started:
  "execStarted api \<Longrightarrow> fst (execInContainer api e w) = waitExec (ContainerExecInspect api)"
  by (auto simp: execInContainer_def execStarted_def succeeded_def split: sum.splits)

lemma execInContainer_not_started:
  "NewClientWithOpts api = None \<Longrightarrow> \<not> execStarted api \<Longrightarrow> \<exists>err. fst (execInContainer api e w) = Done (Some err)"
  by (auto simp: execInContainer_def execStarted_def succeeded_def split: sum.splits)

lemma Run_exec_nil_iff:
  assumes "containerName e \<noteq> []"
  shows "fst (Run api e w) = Done None \<longleftrightarrow> execStarted api \<and> waitExec (ContainerExecInspect api) = Done None"
proof (cases "NewClientWithOpts api")
  case None
  show ?thesis
  proof (cases "execStarted api")
    case True
    with None assms show ?thesis by (simp add: Run_exec execInContainer_started)
  next
    case False
    from execInContainer_not_started[OF None False,
           of "e\<lparr>ctxDone := False, cancel := Some CancelContext\<rparr>" w] None assms False
    show ?thesis by (auto simp: Run_exec)
  qed
next
  case (Some a)
  with assms show ?thesis by (simp add: Run_exec execStarted_def)
qed

lemma runContainer_result:
  "fst (runContainer api e w) =
     (case ContainerCreate api of
        Inl err \<Rightarrow> Done (Some err)
      | Inr ID \<Rightarrow>
          (case ContainerStart api of
             Some err \<Rightarrow> Done (Some err)
           | None \<Rightarrow>
              (case ContainerLogs api of
                 Inl err \<Rightarrow> Done (Some err)
               | Inr out \<Rightarrow>
                  (case ContainerWait api of
                     None \<Rightarrow> Waiting
                   | Some (WaitErr err) \<Rightarrow> Done err
                   | Some (WaitStatus c) \<Rightarrow>
                      (if c \<noteq> 0 then Done (Some (Plain (''exit status '' @ decimal c))) else Done None)))))"
  by (auto simp: runContainer_def attachAndWait_def Let_def split: sum.splits option.splits prod.splits waitResult.splits runResult.splits)

lemma Run_container_result:
  "containerName e = [] \<Longrightarrow>
   fst (Run api e w) =
     (case NewClientWithOpts api of
        Some err \<Rightarrow> Done (Some err)
      | None \<Rightarrow>
         (if pull e then
            (case ImagePull api of
               Inl err \<Rightarrow> Done (Some err)
             | Inr reader \<Rightarrow>
                (case CopyFault api of
                   Some err \<Rightarrow> Done (Some err)
                 | None \<Rightarrow> fst (runContainer api (e\<lparr>ctxDone := False, cancel := Some CancelContext\<rparr>)
                      (w\<lparr>outputs := (outputs w)(stdout e := outputs w (stdout e) @ reader)\<rparr>))))
          else fst (runContainer api (e\<lparr>ctxDone := False, cancel := Some CancelContext\<rparr>) w)))"
  by (auto simp: Run_def Let_def split: sum.splits option.splits prod.splits)

lemma Run_container_nil_iff:
  assumes "containerName e = []" and "ContainerWait api \<noteq> Some (WaitErr None)"
  shows "fst (Run api e w) = Done None \<longleftrightarrow> containerStarted e api \<and> ContainerWait api = Some (WaitStatus 0)"
  using assms
  by (auto simp: Run_container_result runContainer_result containerStarted_def succeeded_def
      split: sum.splits option.splits waitResult.splits if_splits)

lemma Run_container_nonzero:
  assumes "containerName e = []" and "containerStarted e api" and "ContainerWait api = Some (WaitStatus c)" and "c \<noteq> 0"
  shows "fst (Run api e w) = Done (Some (Plain (''exit status '' @ decimal c)))"
  using assms
  by (auto simp: Run_container_result runContainer_result containerStarted_def succeeded_def
      split: sum.splits option.splits waitResult.splits if_splits)

text \<open>
  Claim C6. With a new container, \<^verbatim>\<open>Run\<close> returns nil exactly when every call up
  to the wait succeeds and the wait delivers the status 0; a status other than 0 gives the
  error \<^verbatim>\<open>exit status n\<close>. (The error channel of the wait is taken to deliver errors
  only, as the docker client does.) With an existing container, \<^verbatim>\<open>Run\<close> returns nil
  exactly when every call up to the polling succeeds, the polls find the exec running until
  one finds it ended, and that one reports the exit code 0; an exit code other than 0 gives
  the error \<^verbatim>\<open>exec failed with exit code: n\<close>.
\<close>

theorem Run_nil_iff_exit_zero:
  "(containerName e = [] \<and> ContainerWait api \<noteq> Some (WaitErr None) \<longrightarrow>
      (fst (Run api e w) = Done None \<longleftrightarrow>
         containerStarted e api \<and> ContainerWait api = Some (WaitStatus 0))) \<and>
   (containerName e = [] \<and> containerStarted e api \<and>
    ContainerWait api = Some (WaitStatus c) \<and> c \<noteq> 0 \<longrightarrow>
      fst (Run api e w) = Done (Some (Plain (''exit status '' @ decimal c)))) \<and>
   (containerName e \<noteq> [] \<longrightarrow>
      (fst (Run api e w) = Done None \<longleftrightarrow>
         execStarted api \<and>
         (\<exists>pre p post. ContainerExecInspect api = pre @ p # post \<and>
            (\<forall>q \<in> set pre. stillRunning q) \<and> exitedWith 0 p))) \<and>
   (containerName e \<noteq> [] \<and> execStarted api \<and> ContainerExecInspect api = pre @ p # post \<and>
    (\<forall>q \<in> set pre. stillRunning q) \<and> exitedWith c p \<and> c \<noteq> 0 \<longrightarrow>
      fst (Run api e w) = Done (Some (Plain (''exec failed with exit code: '' @ decimal c))))"
proof (intro conjI impI)
  assume "containerName e = [] \<and> ContainerWait api \<noteq> Some (WaitErr None)"
  then show "fst (Run api e w) = Done None \<longleftrightarrow>
         containerStarted e api \<and> ContainerWait api = Some (WaitStatus 0)"
    by (simp add: Run_container_nil_iff)
next
  assume "containerName e = [] \<and> containerStarted e api \<and>
    ContainerWait api = Some (WaitStatus c) \<and> c \<noteq> 0"
  then show "fst (Run api e w) = Done (Some (Plain (''exit status '' @ decimal c)))"
    by (simp add: Run_container_nonzero)
next
  assume "containerName e \<noteq> []"
  then show "fst (Run api e w) = Done None \<longleftrightarrow>
         execStarted api \<and>
         (\<exists>pre p post. ContainerExecInspect api = pre @ p # post \<and>
            (\<forall>q \<in> set pre. stillRunning q) \<and> exitedWith 0 p)"
    by (simp add: Run_exec_nil_iff waitExec_nil_iff)
next
  assume a: "containerName e \<noteq> [] \<and> execStarted api \<and>
    ContainerExecInspect api = pre @ p # post \<and>
    (\<forall>q \<in> set pre. stillRunning q) \<and> exitedWith c p \<and> c \<noteq> 0"
  with waitExec_nonzero[of pre c p post]
  have "waitExec (ContainerExecInspect api) =
               Done (Some (Plain (''exec failed with exit code: '' @ decimal c)))"
    by simp
  with a show "fst (Run api e w) =
                 Done (Some (Plain (''exec failed with exit code: '' @ decimal c)))"
    by (simp add: Run_exec execInContainer_started execStarted_def)
qed

lemma exampleAPI_started:
  "containerStarted exampleDocker exampleAPI \<and> execStarted exampleAPI \<and>
   containerName exampleDocker = [] \<and> containerName execDocker \<noteq> []"
  by (simp add: containerStarted_def execStarted_def succeeded_def exampleDocker_def
      exampleAPI_def execDocker_def)

theorem Run_nil_iff_exit_zero_witness:
  "fst (Run exampleAPI exampleDocker emptyDockerState) = Done None \<and>
   fst (Run (exampleAPI\<lparr>ContainerWait := Some (WaitStatus 1)\<rparr>) exampleDocker emptyDockerState) =
     Done (Some (Plain ''exit status 1'')) \<and>
   fst (Run exampleAPI execDocker emptyDockerState) = Done None \<and>
   fst (Run (exampleAPI\<lparr>ContainerExecInspect :=
               [\<lparr>inspect = Inr \<lparr>Running = True, ExitCode = 0\<rparr>, doneAtSelect = False\<rparr>,
                \<lparr>inspect = Inr \<lparr>Running = False, ExitCode = 2\<rparr>, doneAtSelect = False\<rparr>]\<rparr>)
          execDocker emptyDockerState) =
     Done (Some (Plain ''exec failed with exit code: 2''))"
proof -
  let ?running = "\<lparr>inspect = Inr \<lparr>Running = True, ExitCode = 0\<rparr>, doneAtSelect = False\<rparr>"
  let ?ended0 = "\<lparr>inspect = Inr \<lparr>Running = False, ExitCode = 0\<rparr>, doneAtSelect = False\<rparr>"
  let ?ended2 = "\<lparr>inspect = Inr \<lparr>Running = False, ExitCode = 2\<rparr>, doneAtSelect = False\<rparr>"
  let ?api1 = "exampleAPI\<lparr>ContainerWait := Some (WaitStatus 1)\<rparr>"
  let ?api2 = "exampleAPI\<lparr>ContainerExecInspect := [?running, ?ended2]\<rparr>"
  have w0: "ContainerWait exampleAPI = Some (WaitStatus 0)" by (simp add: exampleAPI_def)
  have s1: "containerStarted exampleDocker ?api1"
    using exampleAPI_started by (simp add: containerStarted_def)
  have s2: "execStarted ?api2" using exampleAPI_started by (simp add: execStarted_def)
  have p0: "ContainerExecInspect exampleAPI = [?running] @ ?ended0 # []"
    by (simp add: exampleAPI_def)
  have r: "stillRunning ?running" by (simp add: stillRunning_def)
  have x0: "exitedWith 0 ?ended0" by (simp add: exitedWith_def)
  have x2: "exitedWith 2 ?ended2" by (simp add: exitedWith_def)
  have d1: "decimal 1 = ''1''" by (simp add: decimal_def digitChar_def)
  have d2: "decimal 2 = ''2''" by (simp add: decimal_def digitChar_def)
  from Run_nil_iff_exit_zero[of exampleDocker exampleAPI emptyDockerState]
       exampleAPI_started w0
  have a: "fst (Run exampleAPI exampleDocker emptyDockerState) = Done None" by simp
  from Run_nil_iff_exit_zero[of exampleDocker ?api1 emptyDockerState 1]
       exampleAPI_started s1 d1
  have b: "fst (Run ?api1 exampleDocker emptyDockerState) =
             Done (Some (Plain ''exit status 1''))" by simp
  have "\<exists>pre p post. ContainerExecInspect exampleAPI = pre @ p # post \<and>
          (\<forall>q \<in> set pre. stillRunning q) \<and> exitedWith 0 p"
    using p0 r x0 by (intro exI[of _ "[?running]"] exI[of _ ?ended0] exI[of _ "[]"]) simp
  with Run_nil_iff_exit_zero[of execDocker exampleAPI emptyDockerState]
       exampleAPI_started
  have c: "fst (Run exampleAPI execDocker emptyDockerState) = Done None" by blast
  from Run_nil_iff_exit_zero[of execDocker ?api2 emptyDockerState 2 "[?running]" ?ended2 "[]"]
       exampleAPI_started s2 r x2 d2
  have d: "fst (Run ?api2 execDocker emptyDockerState) =
             Done (Some (Plain ''exec failed with exit code: 2''))" by simp
  from a b c d show ?thesis by blast
qed

end
